theory Spec2Isabelle
  imports Complex_Main "HOL-Library.Monad_Syntax"
begin

section \<open>Python values and exceptions\<close>

text \<open>
  The Python exceptions that the modelled code can raise. A raising call returns
  \<open>Inl e\<close>; a normal return is \<open>Inr v\<close>. Floating-point numbers are modelled by
  exact rationals: rounding, overflow and signed zeros are outside the model.
\<close>

datatype pyexc =
    NameError string
  | AttributeError string
  | IndexError
  | ValueError
  | TypeError
  | ZeroDivisionError


section \<open>The waveform generator (Scripts/Jupyter/IV/IVkeithley.py)\<close>

text \<open>
  \<^verbatim>\<open>np.arange(start, stop, step)\<close> has \<open>ceil((stop - start) / step)\<close> elements
  (none when that is not positive), the \<open>i\<close>-th being \<open>start + i * step\<close>. The
  quotient is taken first, so a zero step raises.
\<close>

definition arange_len :: "rat \<Rightarrow> rat \<Rightarrow> rat \<Rightarrow> nat" where
  "arange_len start stop step = nat \<lceil>(stop - start) / step\<rceil>"

definition arange :: "rat \<Rightarrow> rat \<Rightarrow> rat \<Rightarrow> rat list" where
  "arange start stop step =
     map (\<lambda>i. start + of_nat i * step) [0 ..< arange_len start stop step]"

text \<open>
  \<^verbatim>\<open>
  def CurrentValues(rangeA, stepA):
      CurrentValues = np.hstack((np.arange(0, rangeA, stepA), np.arange(
          rangeA, -rangeA, -stepA), np.arange(-rangeA, 0, stepA)))
      CurrentValues = np.append(CurrentValues, 0)
      return CurrentValues
  \<close>
\<close>

definition CurrentValues :: "rat \<Rightarrow> rat \<Rightarrow> pyexc + rat list" where
  "CurrentValues rangeA stepA =
     (if stepA = 0 then Inl ZeroDivisionError
      else Inr (arange 0 rangeA stepA @ arange rangeA (- rangeA) (- stepA)
                @ arange (- rangeA) 0 stepA @ [0]))"

section \<open>Python floats, \<open>float(str)\<close> and \<open>int(str)\<close>\<close>

text \<open>
  A float is a finite rational or one of the three non-finite values. The operations
  below are the ones the modelled code applies to floats.
\<close>

datatype pyfloat = Fin rat | PInf | NInf | NaN

fun fadd :: "pyfloat \<Rightarrow> pyfloat \<Rightarrow> pyfloat" where
  "fadd (Fin a) (Fin b) = Fin (a + b)"
| "fadd NaN y = NaN"
| "fadd x NaN = NaN"
| "fadd PInf NInf = NaN"
| "fadd NInf PInf = NaN"
| "fadd PInf y = PInf"
| "fadd NInf y = NInf"
| "fadd (Fin a) y = y"

text \<open>Multiplication of a float by a finite number \<open>p\<close>.\<close>

fun fmul :: "pyfloat \<Rightarrow> rat \<Rightarrow> pyfloat" where
  "fmul (Fin a) p = Fin (a * p)"
| "fmul NaN p = NaN"
| "fmul PInf p = (if p = 0 then NaN else if 0 < p then PInf else NInf)"
| "fmul NInf p = (if p = 0 then NaN else if 0 < p then NInf else PInf)"

text \<open>Python's \<open>x / n\<close> for a float (or the integer 0) \<open>x\<close> and an integer \<open>n\<close>: a zero divisor raises.\<close>

fun py_truediv :: "pyfloat \<Rightarrow> int \<Rightarrow> pyexc + pyfloat" where
  "py_truediv x n =
     (if n = 0 then Inl ZeroDivisionError
      else Inr (case x of
                  Fin a \<Rightarrow> Fin (a / of_int n)
                | NaN \<Rightarrow> NaN
                | PInf \<Rightarrow> (if 0 < n then PInf else NInf)
                | NInf \<Rightarrow> (if 0 < n then NInf else PInf)))"

text \<open>
  numpy's \<open>x / c\<close> for a float \<open>x\<close> and a finite \<open>np.float64\<close> \<open>c\<close>: a zero divisor
  gives a non-finite value (and a warning), not an exception.
\<close>

fun np_truediv :: "pyfloat \<Rightarrow> rat \<Rightarrow> pyfloat" where
  "np_truediv (Fin v) c =
     (if c = 0 then (if v = 0 then NaN else if 0 < v then PInf else NInf)
      else Fin (v / c))"
| "np_truediv NaN c = NaN"
| "np_truediv PInf c = (if 0 \<le> c then PInf else NInf)"
| "np_truediv NInf c = (if 0 \<le> c then NInf else PInf)"

text \<open>
  Strings. \<open>str.split(sep)\<close> cuts at every occurrence of the separator and always
  returns at least one piece.
\<close>

fun split_on :: "char \<Rightarrow> string \<Rightarrow> string list" where
  "split_on sep [] = [[]]"
| "split_on sep (x # xs) =
     (if x = sep then [] # split_on sep xs
      else (case split_on sep xs of
              [] \<Rightarrow> [[x]]
            | w # ws \<Rightarrow> (x # w) # ws))"

definition is_space :: "char \<Rightarrow> bool" where
  "is_space c = ((of_char c :: nat) \<in> {9, 10, 11, 12, 13, 28, 29, 30, 31, 32})"

definition strip :: "string \<Rightarrow> string" where
  "strip s = rev (dropWhile is_space (rev (dropWhile is_space s)))"

definition is_digit :: "char \<Rightarrow> bool" where
  "is_digit c = (48 \<le> (of_char c :: nat) \<and> (of_char c :: nat) \<le> 57)"

definition lower :: "char \<Rightarrow> char" where
  "lower c = (if 65 \<le> (of_char c :: nat) \<and> (of_char c :: nat) \<le> 90
              then char_of ((of_char c :: nat) + 32) else c)"

text \<open>
  \<open>digitpart ::= digit (["_"] digit)*\<close>: digits, with single underscores allowed
  between two digits.
\<close>

fun no_double_underscore :: "string \<Rightarrow> bool" where
  "no_double_underscore (a # b # cs) =
     (\<not> (a = CHR ''_'' \<and> b = CHR ''_'') \<and> no_double_underscore (b # cs))"
| "no_double_underscore cs = True"

definition is_digitpart :: "string \<Rightarrow> bool" where
  "is_digitpart s =
     (s \<noteq> [] \<and> list_all (\<lambda>c. is_digit c \<or> c = CHR ''_'') s
      \<and> is_digit (hd s) \<and> is_digit (last s) \<and> no_double_underscore s)"

definition digits_of :: "string \<Rightarrow> string" where
  "digits_of s = filter is_digit s"

definition nat_of_digits :: "string \<Rightarrow> nat" where
  "nat_of_digits ds = foldl (\<lambda>a c. 10 * a + ((of_char c :: nat) - 48)) 0 ds"

text \<open>An optional sign: the sign (\<open>True\<close> for minus) and the rest.\<close>

fun take_sign :: "string \<Rightarrow> bool \<times> string" where
  "take_sign [] = (False, [])"
| "take_sign (c # cs) =
     (if c = CHR ''-'' then (True, cs)
      else if c = CHR ''+'' then (False, cs)
      else (False, c # cs))"

text \<open>
  \<open>int(s)\<close> in base 10: surrounding whitespace is stripped, then an optional sign and
  a digitpart; anything else raises \<open>ValueError\<close>.
\<close>

definition py_int :: "string \<Rightarrow> pyexc + int" where
  "py_int s =
     (case take_sign (strip s) of (neg, body) \<Rightarrow>
        if is_digitpart body
        then Inr (if neg then - int (nat_of_digits (digits_of body))
                  else int (nat_of_digits (digits_of body)))
        else Inl ValueError)"

definition pow10 :: "int \<Rightarrow> rat" where
  "pow10 k = (if 0 \<le> k then 10 ^ nat k else 1 / 10 ^ nat (- k))"

text \<open>The text up to the first character satisfying \<open>P\<close>, and what follows it, if any.\<close>

fun cut_at :: "(char \<Rightarrow> bool) \<Rightarrow> string \<Rightarrow> string \<times> string option" where
  "cut_at P [] = ([], None)"
| "cut_at P (c # cs) =
     (if P c then ([], Some cs)
      else (case cut_at P cs of (a, b) \<Rightarrow> (c # a, b)))"

text \<open>
  \<open>number ::= [digitpart] "." digitpart | digitpart ["."]\<close>, as the nonnegative
  rational it denotes.
\<close>

definition parse_number :: "string \<Rightarrow> rat option" where
  "parse_number s =
     (case cut_at (\<lambda>c. c = CHR ''.'') s of
        (ip, None) \<Rightarrow>
          (if is_digitpart ip then Some (of_nat (nat_of_digits (digits_of ip))) else None)
      | (ip, Some fp) \<Rightarrow>
          (if (ip = [] \<or> is_digitpart ip) \<and> (fp = [] \<or> is_digitpart fp)
              \<and> \<not> (ip = [] \<and> fp = [])
           then Some (of_nat (nat_of_digits (digits_of ip))
                      + of_nat (nat_of_digits (digits_of fp)) / 10 ^ length (digits_of fp))
           else None))"

text \<open>\<open>exponent ::= ("e" | "E") [sign] digitpart\<close>, given the text after the marker.\<close>

definition parse_exponent :: "string \<Rightarrow> int option" where
  "parse_exponent s =
     (case take_sign s of (neg, body) \<Rightarrow>
        if is_digitpart body
        then Some (if neg then - int (nat_of_digits (digits_of body))
                   else int (nat_of_digits (digits_of body)))
        else None)"

text \<open>
  \<open>float(s)\<close>: surrounding whitespace is stripped, then an optional sign followed by
  \<open>inf\<close>, \<open>infinity\<close> or \<open>nan\<close> in any case, or by a number with an optional exponent;
  anything else raises \<open>ValueError\<close>.
\<close>

definition py_float :: "string \<Rightarrow> pyexc + pyfloat" where
  "py_float s =
     (case take_sign (strip s) of (neg, body) \<Rightarrow>
        if map lower body = ''inf'' \<or> map lower body = ''infinity''
        then Inr (if neg then NInf else PInf)
        else if map lower body = ''nan'' then Inr NaN
        else (case cut_at (\<lambda>c. c = CHR ''e'' \<or> c = CHR ''E'') body of
                (m, None) \<Rightarrow>
                  (case parse_number m of
                     None \<Rightarrow> Inl ValueError
                   | Some v \<Rightarrow> Inr (Fin (if neg then - v else v)))
              | (m, Some ex) \<Rightarrow>
                  (case parse_number m of
                     None \<Rightarrow> Inl ValueError
                   | Some v \<Rightarrow>
                       (case parse_exponent ex of
                          None \<Rightarrow> Inl ValueError
                        | Some k \<Rightarrow> Inr (Fin ((if neg then - v else v) * pow10 k))))))"

section \<open>The transport, the log and the environment\<close>

text \<open>
  A command sent to an instrument is a fixed string, or a template with the value that
  \<open>%\<close> formats into it. A value returned by \<open>Instrument.values\<close> is a float or a string.
\<close>

datatype scpi = Raw string | Fmt string rat

datatype field = Num rat | Str string

datatype level = Debug | Info | Warning

text \<open>
  Everything the code does to the outside world, in the order it does it: writes and
  queries on the two instruments, sleeps, clock readings, log records, printed lines,
  and the records the procedure emits.
\<close>

datatype event =
    SourceWrite scpi
  | SourceValues string "field list"
  | SourceRead string
  | MeterWrite scpi
  | MeterQuery string string
  | Sleep rat
  | Clock rat
  | Log level string "field list"
  | Print string
  | Emit_results rat pyfloat pyfloat
  | Emit_progress rat

text \<open>
  The outside world answers as a function of what has happened so far: the meter's
  reply to a query, the source's replies to \<open>values\<close> and \<open>read\<close>, the wall clock, and
  the procedure's stop flag.
\<close>

record env =
  query_reply :: "event list \<Rightarrow> string"
  values_reply :: "event list \<Rightarrow> field list"
  read_reply :: "event list \<Rightarrow> string"
  clock :: "event list \<Rightarrow> rat"
  should_stop :: "event list \<Rightarrow> bool"

text \<open>\<open>time.sleep(d)\<close> raises \<open>ValueError\<close> for a negative duration.\<close>

definition sleep :: "rat \<Rightarrow> event list \<Rightarrow> (pyexc + unit) \<times> event list" where
  "sleep d tr = (if d < 0 then (Inl ValueError, tr) else (Inr (), tr @ [Sleep d]))"

section \<open>Keithley 2182 nanovoltmeter (keithley2182.py)\<close>

record Keithley2182 =
  channel :: int

text \<open>
  \<^verbatim>\<open>
  def set_channel(self, channel_number):
      if channel_number == 1:
          self.channel = 1
          self.write(":SENSE:CHANNEL 1")
      elif channel_number == 2: ...
      elif channel_number == 0: ...
      else:
          print('incorrect channel number')
  \<close>
  No branch raises: the call always returns normally.
\<close>

definition set_channel ::
  "Keithley2182 \<Rightarrow> int \<Rightarrow> event list \<Rightarrow> (pyexc + unit) \<times> Keithley2182 \<times> event list" where
  "set_channel self channel_number tr =
     (if channel_number = 1
      then (Inr (), self\<lparr>channel := 1\<rparr>, tr @ [MeterWrite (Raw '':SENSE:CHANNEL 1'')])
      else if channel_number = 2
      then (Inr (), self\<lparr>channel := 2\<rparr>, tr @ [MeterWrite (Raw '':SENSE:CHANNEL 2'')])
      else if channel_number = 0
      then (Inr (), self\<lparr>channel := 0\<rparr>, tr @ [MeterWrite (Raw '':SENSE:CHANNEL 0'')])
      else (Inr (), self, tr @ [Print ''incorrect channel number'']))"

text \<open>
  The expression \<^verbatim>\<open>float(tmp[0]) * 10**int(tmp[1])\<close> applied to
  \<^verbatim>\<open>tmp = reply.split('E')\<close>, evaluated left to right: \<open>float\<close> of the first
  piece, then the index into the second piece, then \<open>int\<close> of it.
\<close>

definition parse_reading :: "string \<Rightarrow> pyexc + pyfloat" where
  "parse_reading reply =
     (let tmp = split_on (CHR ''E'') reply in
      case py_float (hd tmp) of
        Inl e \<Rightarrow> Inl e
      | Inr m \<Rightarrow>
          (case tl tmp of
             [] \<Rightarrow> Inl IndexError
           | t1 # _ \<Rightarrow>
               (case py_int t1 of
                  Inl e \<Rightarrow> Inl e
                | Inr k \<Rightarrow> Inr (fmul m (pow10 k)))))"

text \<open>The body of \<^verbatim>\<open>for i in range(iterations)\<close>, with the rounds left to go.\<close>

fun measure_rounds ::
  "env \<Rightarrow> nat \<Rightarrow> pyfloat \<Rightarrow> event list \<Rightarrow> (pyexc + pyfloat) \<times> event list" where
  "measure_rounds E 0 result tr = (Inr result, tr)"
| "measure_rounds E (Suc n) result tr =
     (let reply = query_reply E tr;
          tr1 = tr @ [MeterQuery ''READ?'' reply]
      in case parse_reading reply of
           Inl e \<Rightarrow> (Inl e, tr1)
         | Inr x \<Rightarrow> measure_rounds E n (fadd result x) tr1)"

text \<open>
  \<^verbatim>\<open>
  def measure_voltage(self, iterations=1):
      self.write("INITIATE:CONT OFF")
      result = 0
      for i in range(iterations):
          tmp = (self.query("READ?").split('E'))
          result += float(tmp[0]) * 10**int(tmp[1])
      return(result / iterations)
  \<close>
\<close>

definition measure_voltage ::
  "env \<Rightarrow> int \<Rightarrow> event list \<Rightarrow> (pyexc + pyfloat) \<times> event list" where
  "measure_voltage E iterations tr =
     (case measure_rounds E (nat iterations) (Fin 0)
             (tr @ [MeterWrite (Raw ''INITIATE:CONT OFF'')]) of
        (Inl e, tr1) \<Rightarrow> (Inl e, tr1)
      | (Inr result, tr1) \<Rightarrow> (py_truediv result iterations, tr1))"

section \<open>Keithley 6220 current source (keithley6220.py)\<close>

text \<open>
  The instance dictionary holds the attributes assigned on the object that are not
  properties of the class. The class declares the properties \<open>current_range\<close>,
  \<open>current\<close>, \<open>current_filter\<close>, \<open>compliance_voltage\<close>, \<open>trigger_count\<close> and
  \<open>trigger_delay\<close>, and nothing named \<open>source_current\<close>.
\<close>

record Keithley6220 =
  name :: string
  inst_dict :: "(string \<times> rat) list"

definition getattr :: "Keithley6220 \<Rightarrow> string \<Rightarrow> pyexc + rat" where
  "getattr self a =
     (case map_of (inst_dict self) a of
        None \<Rightarrow> Inl (AttributeError a)
      | Some v \<Rightarrow> Inr v)"

text \<open>
  Modelled from the spec: the validator \<open>truncated_range\<close> and the setters that
  \<open>Instrument.control\<close> and \<open>Instrument.setting\<close> build are in
  \<open>pymeasure.instruments\<close>, outside the files at hand. By the specification a setter
  validates the value (a truncated range clamps it into \<open>[min, max]\<close>), formats the set
  command with it and issues one write.
\<close>

definition truncated_range :: "rat \<Rightarrow> rat \<Rightarrow> rat \<Rightarrow> rat" where
  "truncated_range v lo hi = (if lo \<le> v \<and> v \<le> hi then v else if hi < v then hi else lo)"

definition set_current_range :: "rat \<Rightarrow> event list \<Rightarrow> event list" where
  "set_current_range v tr =
     tr @ [SourceWrite (Fmt ''CURRent:RANGe:AUTO 0;CURRent:RANGe %g''
                          (truncated_range v (- (105 / 1000)) (105 / 1000)))]"

definition set_current :: "rat \<Rightarrow> event list \<Rightarrow> event list" where
  "set_current v tr = tr @ [SourceWrite (Fmt ''CURRent %g'' v)]"

text \<open>
  \<^verbatim>\<open>
  def shutdown(self):
      """Sets output to zero, then turns the output off"""
      log.info("Shutting down %s." % self.name)
      self.write("SourceMeter")
  \<close>
\<close>

definition Keithley6220_shutdown :: "Keithley6220 \<Rightarrow> event list \<Rightarrow> event list" where
  "Keithley6220_shutdown self tr =
     tr @ [Log Info ''Shutting down %s.'' [Str (name self)], SourceWrite (Raw ''SourceMeter'')]"

definition enable_source :: "event list \<Rightarrow> event list" where
  "enable_source tr = tr @ [SourceWrite (Raw ''OUTPUT ON'')]"

definition disable_source :: "event list \<Rightarrow> event list" where
  "disable_source tr = tr @ [SourceWrite (Raw ''OUTPUT OFF'')]"

definition enable_auto_range :: "event list \<Rightarrow> event list" where
  "enable_auto_range tr = tr @ [SourceWrite (Raw ''CURRent:RANGe:AUTO 1'')]"

definition disable_auto_range :: "event list \<Rightarrow> event list" where
  "disable_auto_range tr = tr @ [SourceWrite (Raw ''CURRent:RANGe:AUTO 0'')]"

text \<open>
  \<^verbatim>\<open>
  @property
  def error(self):
      err = self.values(":system:error?")
      if len(err) < 2:
          err = self.read()  # Try reading again
      code = err[0]
      message = err[1].replace('"', '')
      return (code, message)
  \<close>
  After the second read \<open>err\<close> is a string, whose items are its characters. A float
  has no \<open>replace\<close>.
\<close>

definition error :: "env \<Rightarrow> event list \<Rightarrow> (pyexc + field \<times> string) \<times> event list" where
  "error E tr =
     (let err = values_reply E tr;
          tr1 = tr @ [SourceValues '':system:error?'' err]
      in if length err < 2
         then (let s = read_reply E tr1;
                   tr2 = tr1 @ [SourceRead s]
               in case s of
                    c0 # c1 # _ \<Rightarrow> (Inr (Str [c0], filter (\<lambda>c. c \<noteq> CHR 0x22) [c1]), tr2)
                  | _ \<Rightarrow> (Inl IndexError, tr2))
         else (case err of
                 code # Str m # _ \<Rightarrow> (Inr (code, filter (\<lambda>c. c \<noteq> CHR 0x22) m), tr1)
               | code # Num x # _ \<Rightarrow> (Inl (AttributeError ''replace''), tr1)
               | _ \<Rightarrow> (Inl IndexError, tr1)))"

text \<open>\<open>code != 0\<close>: a string never equals the integer zero.\<close>

fun code_nonzero :: "field \<Rightarrow> bool" where
  "code_nonzero (Num c) = (c \<noteq> 0)"
| "code_nonzero (Str s) = True"

text \<open>\<open>"%d" % code\<close> needs a number.\<close>

fun is_number :: "field \<Rightarrow> bool" where
  "is_number (Num c) = True"
| "is_number (Str s) = False"

text \<open>
  \<^verbatim>\<open>
  def check_errors(self):
      code, message = self.error
      while code != 0:
          t = time.time()
          log.info("Keithley 2400 reported error: %d, %s" % (code, message))
          code, message = self.error
          if (time.time() - t) > 10:
              log.warning("Timed out for Keithley 2400 error retrieval.")
  \<close>
  The loop may run forever, so it is a partial function: \<open>None\<close> is "does not return".
\<close>

partial_function (option) check_errors_loop ::
  "env \<Rightarrow> field \<Rightarrow> string \<Rightarrow> event list \<Rightarrow> ((pyexc + unit) \<times> event list) option" where
  "check_errors_loop E code message tr =
     (if code_nonzero code
      then (let t = clock E tr;
                tr1 = tr @ [Clock t]
            in if \<not> is_number code then Some (Inl TypeError, tr1)
               else (let tr2 = tr1 @ [Log Info ''Keithley 2400 reported error: %d, %s''
                                        [code, Str message]]
                     in case error E tr2 of
                          (Inl e, tr3) \<Rightarrow> Some (Inl e, tr3)
                        | (Inr (code', message'), tr3) \<Rightarrow>
                            (let t' = clock E tr3;
                                 tr4 = tr3 @ [Clock t'];
                                 tr5 = (if t' - t > 10
                                        then tr4 @ [Log Warning
                                          ''Timed out for Keithley 2400 error retrieval.'' []]
                                        else tr4)
                             in check_errors_loop E code' message' tr5)))
      else Some (Inr (), tr))"

definition check_errors :: "env \<Rightarrow> event list \<Rightarrow> ((pyexc + unit) \<times> event list) option" where
  "check_errors E tr =
     (case error E tr of
        (Inl e, tr1) \<Rightarrow> Some (Inl e, tr1)
      | (Inr (code, message), tr1) \<Rightarrow> check_errors_loop E code message tr1)"

text \<open>
  \<open>np.linspace(start, stop, num)\<close>: \<open>num\<close> evenly spaced points, the last one \<open>stop\<close>
  when there are at least two; a negative \<open>num\<close> raises \<open>ValueError\<close>.
\<close>

definition linspace :: "rat \<Rightarrow> rat \<Rightarrow> int \<Rightarrow> pyexc + rat list" where
  "linspace start stop num =
     (if num < 0 then Inl ValueError
      else if num = 1 then Inr [start]
      else Inr (map (\<lambda>i. start + of_nat i * ((stop - start) / of_int (num - 1)))
                  [0 ..< nat num]))"

text \<open>The body of \<^verbatim>\<open>for current in currents\<close> of \<open>ramp_to_current\<close>.\<close>

fun ramp_steps :: "rat \<Rightarrow> rat list \<Rightarrow> event list \<Rightarrow> (pyexc + unit) \<times> event list" where
  "ramp_steps pause [] tr = (Inr (), tr)"
| "ramp_steps pause (current # rest) tr =
     (case sleep pause (set_current current tr) of
        (Inl e, tr1) \<Rightarrow> (Inl e, tr1)
      | (Inr u, tr1) \<Rightarrow> ramp_steps pause rest tr1)"

text \<open>
  \<^verbatim>\<open>
  def ramp_to_current(self, target_current, steps=30, pause=20e-3):
      currents = np.linspace(
          self.source_current,
          target_current,
          steps
      )
      for current in currents:
          self.current = current
          time.sleep(pause)
  \<close>
\<close>

definition ramp_to_current ::
  "Keithley6220 \<Rightarrow> rat \<Rightarrow> int \<Rightarrow> rat \<Rightarrow> event list \<Rightarrow> (pyexc + unit) \<times> event list" where
  "ramp_to_current self target_current steps pause tr =
     (case getattr self ''source_current'' of
        Inl e \<Rightarrow> (Inl e, tr)
      | Inr source_current \<Rightarrow>
          (case linspace source_current target_current steps of
             Inl e \<Rightarrow> (Inl e, tr)
           | Inr currents \<Rightarrow> ramp_steps pause currents tr))"

section \<open>The sweep procedure (Scripts/Jupyter/IV/IVkeithley.py)\<close>

text \<open>
  A bare name in a method body is looked up in the module's global namespace (and
  then among the builtins, which have neither of the names used here); the attributes
  of the enclosing class are not in scope. The namespaces are those the two copies
  of the script bind at module level.
\<close>

datatype pyval = PyFloat rat | PyObject string

definition lookup_name :: "(string \<times> pyval) list \<Rightarrow> string \<Rightarrow> pyexc + pyval" where
  "lookup_name globals n =
     (case map_of globals n of
        None \<Rightarrow> Inl (NameError n)
      | Some v \<Rightarrow> Inr v)"

definition module_globals :: "(string \<times> pyval) list" where
  "module_globals =
     [(''logging'', PyObject ''module''), (''sleep'', PyObject ''function''),
      (''np'', PyObject ''module''), (''Keithley2182'', PyObject ''class''),
      (''Keithley6220'', PyObject ''class''), (''Procedure'', PyObject ''class''),
      (''FloatParameter'', PyObject ''class''), (''log'', PyObject ''Logger''),
      (''CurrentValues'', PyObject ''function''), (''IV'', PyObject ''class'')]"

definition module_globals_window :: "(string \<times> pyval) list" where
  "module_globals_window =
     module_globals @
     [(''sys'', PyObject ''module''), (''QtGui'', PyObject ''module''),
      (''ManagedWindow'', PyObject ''class''), (''unique_filename'', PyObject ''function''),
      (''Results'', PyObject ''class''), (''MainWindow'', PyObject ''class''),
      (''app'', PyObject ''QApplication''), (''window'', PyObject ''MainWindow'')]"

record IV =
  current_range :: rat
  current_step :: rat
  delay :: rat
  source :: Keithley6220
  meter :: Keithley2182

text \<open>The body of \<^verbatim>\<open>for i, current in enumerate(currents)\<close> of \<open>execute\<close>.\<close>

fun sweep ::
  "env \<Rightarrow> IV \<Rightarrow> nat \<Rightarrow> (nat \<times> rat) list \<Rightarrow> event list \<Rightarrow> (pyexc + unit) \<times> event list" where
  "sweep E self steps [] tr = (Inr (), tr)"
| "sweep E self steps ((i, current) # rest) tr =
     (let tr1 = tr @ [Log Debug ''Measuring current: %g mA'' [Num current]];
          tr2 = set_current current tr1
      in case sleep (delay self * (1 / 1000)) tr2 of
           (Inl e, tr3) \<Rightarrow> (Inl e, tr3)
         | (Inr u, tr3) \<Rightarrow>
             (case measure_voltage E 1 tr3 of
                (Inl e, tr4) \<Rightarrow> (Inl e, tr4)
              | (Inr voltage, tr4) \<Rightarrow>
                  (let resistance = np_truediv voltage current;
                       tr5 = tr4 @ [Emit_results current voltage resistance,
                                    Emit_progress (100 * of_nat i / of_nat steps)]
                   in if should_stop E tr5
                      then (Inr (), tr5 @ [Log Warning ''Catch stop command in procedure'' []])
                      else sweep E self steps rest tr5)))"

text \<open>
  \<^verbatim>\<open>
  def execute(self):
      currents = CurrentValues(current_range, current_step * 1e-3)
      currents *= 1e-6  # and finally change to A
      steps = len(currents)
      log.info("Starting to sweep through current")
      for i, current in enumerate(currents):
          ...
  \<close>
  \<open>current_range\<close> and \<open>current_step\<close> are bare names here, not \<open>self.current_range\<close>
  and \<open>self.current_step\<close>.
\<close>

definition execute ::
  "(string \<times> pyval) list \<Rightarrow> env \<Rightarrow> IV \<Rightarrow> event list \<Rightarrow> (pyexc + unit) \<times> event list" where
  "execute globals E self tr =
     (case lookup_name globals ''current_range'' of
        Inl e \<Rightarrow> (Inl e, tr)
      | Inr vr \<Rightarrow>
          (case lookup_name globals ''current_step'' of
             Inl e \<Rightarrow> (Inl e, tr)
           | Inr vs \<Rightarrow>
               (case (vr, vs) of
                  (PyFloat r, PyFloat s) \<Rightarrow>
                    (case CurrentValues r (s * (1 / 1000)) of
                       Inl e \<Rightarrow> (Inl e, tr)
                     | Inr cv \<Rightarrow>
                         (let currents = map (\<lambda>c. c * (1 / 1000000)) cv;
                              steps = length currents
                          in sweep E self steps (zip [0 ..< steps] currents)
                               (tr @ [Log Info ''Starting to sweep through current'' []])))
                | _ \<Rightarrow> (Inl TypeError, tr))))"

text \<open>
  \<^verbatim>\<open>
  def shutdown(self):
      self.source.shutdown()
      log.info("Finished")
  \<close>
\<close>

definition IV_shutdown :: "IV \<Rightarrow> event list \<Rightarrow> event list" where
  "IV_shutdown self tr = Keithley6220_shutdown (source self) tr @ [Log Info ''Finished'' []]"

section \<open>Reading the trace\<close>

text \<open>The result records and the progress values emitted, in order.\<close>

fun results_of :: "event list \<Rightarrow> (rat \<times> pyfloat \<times> pyfloat) list" where
  "results_of [] = []"
| "results_of (Emit_results c v r # tr) = (c, v, r) # results_of tr"
| "results_of (e # tr) = results_of tr"

fun progress_of :: "event list \<Rightarrow> rat list" where
  "progress_of [] = []"
| "progress_of (Emit_progress p # tr) = p # progress_of tr"
| "progress_of (e # tr) = progress_of tr"

text \<open>The commands written to the current source, and the queries sent to the meter.\<close>

fun source_writes :: "event list \<Rightarrow> scpi list" where
  "source_writes [] = []"
| "source_writes (SourceWrite c # tr) = c # source_writes tr"
| "source_writes (e # tr) = source_writes tr"


text \<open>The source currents commanded so far, and the last of them.\<close>

fun commanded :: "scpi list \<Rightarrow> rat list" where
  "commanded [] = []"
| "commanded (Fmt t v # cs) = (if t = ''CURRent %g'' then v # commanded cs else commanded cs)"
| "commanded (Raw t # cs) = commanded cs"

definition last_commanded :: "event list \<Rightarrow> rat option" where
  "last_commanded tr =
     (case rev (commanded (source_writes tr)) of [] \<Rightarrow> None | c # cs \<Rightarrow> Some c)"

text \<open>
  One write may carry several commands separated by semicolons; the instrument runs them
  in order. The auto-range mode after a trace is what the last auto-range command in it
  selected.
\<close>

fun message_units :: "scpi \<Rightarrow> string list" where
  "message_units (Raw t) = split_on (CHR '';'') t"
| "message_units (Fmt t v) = split_on (CHR '';'') t"

definition auto_range_step :: "bool option \<Rightarrow> string \<Rightarrow> bool option" where
  "auto_range_step a u =
     (if u = ''CURRent:RANGe:AUTO 1'' then Some True
      else if u = ''CURRent:RANGe:AUTO 0'' then Some False
      else a)"

definition auto_range_after :: "event list \<Rightarrow> bool option" where
  "auto_range_after tr =
     foldl auto_range_step None (concat (map message_units (source_writes tr)))"

text \<open>
  An instrument whose error queue never empties: every error query reports code 1.
  Its clock advances 11 seconds with every event, so more than 10 seconds pass in each
  round of the polling loop.
\<close>

definition stuck_env :: env where
  "stuck_env =
     \<lparr>query_reply = (\<lambda>tr. ''0E0''),
      values_reply = (\<lambda>tr. [Num 1, Str ''error'']),
      read_reply = (\<lambda>tr. []),
      clock = (\<lambda>tr. 11 * of_nat (length tr)),
      should_stop = (\<lambda>tr. False)\<rparr>"

text \<open>
  A stub meter that echoes the last commanded source current, in nanoamperes with the
  exponent \<open>E-9\<close>, for the five set-points of a sweep to one microampere in steps of a half.
\<close>

definition echo_reply :: "rat option \<Rightarrow> string" where
  "echo_reply c =
     (if c = Some (1 / 2000000) then ''500E-9''
      else if c = Some (1 / 1000000) then ''1000E-9''
      else if c = Some (- (1 / 2000000)) then ''-500E-9''
      else if c = Some (- (1 / 1000000)) then ''-1000E-9''
      else ''0E-9'')"

definition echo_env :: env where
  "echo_env =
     \<lparr>query_reply = (\<lambda>tr. echo_reply (last_commanded tr)),
      values_reply = (\<lambda>tr. [Num 0, Str ''No error'']),
      read_reply = (\<lambda>tr. []),
      clock = (\<lambda>tr. of_nat (length tr)),
      should_stop = (\<lambda>tr. False)\<rparr>"

text \<open>
  A session in which the two names that \<open>execute\<close> reads are bound at top level, as a
  notebook cell \<^verbatim>\<open>current_range = 1.0; current_step = 500.0\<close> would do, and a
  procedure object with the same parameters.
\<close>

definition notebook_globals :: "(string \<times> pyval) list" where
  "notebook_globals =
     module_globals @ [(''current_range'', PyFloat 1), (''current_step'', PyFloat 500)]"

definition demo_procedure :: IV where
  "demo_procedure =
     \<lparr>current_range = 1, current_step = 500, delay = 10,
      source = \<lparr>name = ''Keithley 6220 DC Currunt Source'', inst_dict = []\<rparr>,
      meter = \<lparr>channel = 1\<rparr>\<rparr>"

section \<open>Facts about the trace readers\<close>

lemma source_writes_append: "source_writes (a @ b) = source_writes a @ source_writes b"
  by (induction a rule: source_writes.induct) simp_all

lemma results_of_append: "results_of (a @ b) = results_of a @ results_of b"
  by (induction a rule: results_of.induct) simp_all

lemma progress_of_append: "progress_of (a @ b) = progress_of a @ progress_of b"
  by (induction a rule: progress_of.induct) simp_all


lemma commanded_append: "commanded (a @ b) = commanded a @ commanded b"
  by (induction a rule: commanded.induct) simp_all

section \<open>The waveform\<close>

lemma length_arange: "length (arange a b s) = arange_len a b s"
  by (simp add: arange_def)


lemma arange_len_up: "arange_len 0 r s = nat \<lceil>r / s\<rceil>"
  by (simp add: arange_len_def)

lemma arange_len_down: "arange_len r (- r) (- s) = nat \<lceil>2 * r / s\<rceil>"
  by (simp add: arange_len_def)

lemma arange_len_back: "arange_len (- r) 0 s = nat \<lceil>r / s\<rceil>"
  by (simp add: arange_len_def)

lemma arange_hd: "0 < arange_len a b s \<Longrightarrow> hd (arange a b s @ ys) = a"
  by (simp add: arange_def upt_conv_Cons)


text \<open>
  With a positive step not above the range, the waveform is three ramps and a closing
  zero: up from 0, down from the range to its negative, back up towards 0.
\<close>

lemma CurrentValues_shape:
  assumes "0 < s" "s \<le> r"
  shows "\<exists>w. CurrentValues r s = Inr w \<and> hd w = 0 \<and> last w = 0
           \<and> int (length w) = 2 * \<lceil>r / s\<rceil> + \<lceil>2 * r / s\<rceil> + 1"
proof -
  let ?w = "arange 0 r s @ arange r (- r) (- s) @ arange (- r) 0 s @ [0]"
  have eq: "CurrentValues r s = Inr ?w" using assms by (simp add: CurrentValues_def)
  have "0 < r / s" using assms by simp
  then have c1: "0 < \<lceil>r / s\<rceil>" by (simp only: zero_less_ceiling)
  have "0 < 2 * r / s" using assms by simp
  then have c2: "0 < \<lceil>2 * r / s\<rceil>" by (simp only: zero_less_ceiling)
  have "0 < arange_len 0 r s" using c1 by (simp add: arange_len_up)
  then have h: "hd ?w = 0" by (rule arange_hd)
  have l: "last ?w = 0" by simp
  have n: "int (length ?w) = 2 * \<lceil>r / s\<rceil> + \<lceil>2 * r / s\<rceil> + 1"
    using c1 c2 by (simp add: length_arange arange_len_up arange_len_down arange_len_back)
  show ?thesis using eq h l n by blast
qed





section \<open>The sweep procedure: name resolution and shutdown\<close>

text \<open>
  C3. Every call of \<open>IV.execute()\<close> in the module as written (either copy of the script)
  raises \<open>NameError\<close> at the bare name \<open>current_range\<close>, whatever the instruments and
  the parameters are: the trace is returned unchanged, so no current command has been
  written to the source and no result record has been emitted.
\<close>

theorem execute_name_error:
  "execute module_globals E self tr = (Inl (NameError ''current_range''), tr)
   \<and> execute module_globals_window E self tr = (Inl (NameError ''current_range''), tr)"
  by (simp add: execute_def lookup_name_def module_globals_def module_globals_window_def)

text \<open>
  C4. The docstring of \<open>Keithley6220.shutdown\<close> promises "Sets output to zero, then
  turns the output off". What \<open>IV.shutdown()\<close> makes the source do is one write of
  the string \<open>SourceMeter\<close>: no current is commanded and \<open>OUTPUT OFF\<close> is never sent.
\<close>

theorem IV_shutdown_writes_only_mode_string:
  "IV_shutdown self tr =
     tr @ [Log Info ''Shutting down %s.'' [Str (name (source self))],
           SourceWrite (Raw ''SourceMeter''), Log Info ''Finished'' []]
   \<and> source_writes (IV_shutdown self tr) = source_writes tr @ [Raw ''SourceMeter'']
   \<and> commanded (source_writes (IV_shutdown self tr)) = commanded (source_writes tr)
   \<and> source_writes (disable_source tr) = source_writes tr @ [Raw ''OUTPUT OFF'']"
  by (simp add: IV_shutdown_def Keithley6220_shutdown_def disable_source_def
      source_writes_append commanded_append)

section \<open>The nanovoltmeter\<close>

text \<open>
  C7, as stated, fails: for channel 3 the call returns normally, having printed a line
  and written nothing to the instrument.
\<close>

theorem set_channel_invalid_counterexample:
  "set_channel \<lparr>channel = 1\<rparr> 3 [] =
     (Inr (), \<lparr>channel = 1\<rparr>, [Print ''incorrect channel number''])"
  by (simp add: set_channel_def)

text \<open>
  C7 (amended). For every argument outside the channel set \<open>{0, 1, 2}\<close>, \<open>set_channel\<close>
  prints \<open>incorrect channel number\<close>, writes nothing to the instrument, leaves the
  selected channel as it was and returns normally; for every member of the set it
  records the channel and issues the corresponding channel-select command.
\<close>

theorem set_channel_behaviour:
  "(n \<notin> {0, 1, 2} \<longrightarrow>
      set_channel self n tr = (Inr (), self, tr @ [Print ''incorrect channel number'']))
   \<and> (n \<in> {0, 1, 2} \<longrightarrow>
      set_channel self n tr =
        (Inr (), self\<lparr>channel := n\<rparr>,
         tr @ [MeterWrite (Raw ('':SENSE:CHANNEL '' @
                 (if n = 0 then ''0'' else if n = 1 then ''1'' else ''2'')))]))"
  by (auto simp: set_channel_def)

theorem set_channel_behaviour_witness:
  "(3 :: int) \<notin> {0, 1, 2} \<and> (2 :: int) \<in> {0, 1, 2}
   \<and> set_channel \<lparr>channel = 1\<rparr> 3 [] =
        (Inr (), \<lparr>channel = 1\<rparr>, [Print ''incorrect channel number''])
   \<and> set_channel \<lparr>channel = 1\<rparr> 2 [] =
        (Inr (), \<lparr>channel = 2\<rparr>, [MeterWrite (Raw '':SENSE:CHANNEL 2'')])"
  using set_channel_behaviour [of 3 "\<lparr>channel = 1\<rparr>" "[]"]
        set_channel_behaviour [of 2 "\<lparr>channel = 1\<rparr>" "[]"]
  by simp







lemma fadd_zero: "fadd (Fin 0) x = x"
  by (cases x) simp_all

lemma py_truediv_one: "py_truediv x 1 = Inr x"
  by (cases x) simp_all

lemma measure_voltage_once:
  "measure_voltage E 1 tr =
     (let tr1 = tr @ [MeterWrite (Raw ''INITIATE:CONT OFF'')];
          reply = query_reply E tr1;
          tr2 = tr1 @ [MeterQuery ''READ?'' reply]
      in case parse_reading reply of
           Inl e \<Rightarrow> (Inl e, tr2)
         | Inr x \<Rightarrow> (Inr x, tr2))"
  by (simp add: measure_voltage_def Let_def fadd_zero py_truediv_one
      del: py_truediv.simps split: sum.splits)






section \<open>The current source\<close>

lemma units_range:
  "split_on (CHR '';'') ''CURRent:RANGe:AUTO 0;CURRent:RANGe %g''
     = [''CURRent:RANGe:AUTO 0'', ''CURRent:RANGe %g'']"
  by simp

lemma units_auto: "split_on (CHR '';'') ''CURRent:RANGe:AUTO 1'' = [''CURRent:RANGe:AUTO 1'']"
  by simp

text \<open>
  C9. For every value assigned to \<open>current_range\<close>, the one message written carries two
  commands, first \<open>CURRent:RANGe:AUTO 0\<close> and then \<open>CURRent:RANGe\<close> with the (clamped)
  value, so auto-range is off afterwards, also when \<open>enable_auto_range()\<close> was called
  immediately before.
\<close>

theorem set_current_range_disables_auto_range:
  "set_current_range v tr =
      tr @ [SourceWrite (Fmt ''CURRent:RANGe:AUTO 0;CURRent:RANGe %g''
                           (truncated_range v (- (105 / 1000)) (105 / 1000)))]
   \<and> concat (map message_units (source_writes (set_current_range v [])))
        = [''CURRent:RANGe:AUTO 0'', ''CURRent:RANGe %g'']
   \<and> auto_range_after (enable_auto_range tr) = Some True
   \<and> auto_range_after (set_current_range v (enable_auto_range tr)) = Some False
   \<and> auto_range_after (set_current_range v tr) = Some False"
  by (simp add: set_current_range_def enable_auto_range_def auto_range_after_def
      source_writes_append units_range units_auto auto_range_step_def del: split_on.simps)

text \<open>
  C8. \<open>ramp_to_current\<close> starts its ramp at \<open>self.source_current\<close>, which the class does
  not define (the set-point property is \<open>current\<close>). On an instrument on which nothing
  has assigned \<open>source_current\<close> the call raises \<open>AttributeError\<close> before any write, for
  every target and every number of steps, also right after a current has been
  commanded.
\<close>

theorem ramp_to_current_attribute_error:
  "ramp_to_current (self\<lparr>inst_dict := []\<rparr>) target_current steps pause (set_current c tr)
     = (Inl (AttributeError ''source_current''), set_current c tr)
   \<and> source_writes (set_current c tr) = source_writes tr @ [Fmt ''CURRent %g'' c]"
  by (simp add: ramp_to_current_def getattr_def set_current_def source_writes_append)

lemma error_stuck:
  "error stuck_env tr =
     (Inr (Num 1, ''error''), tr @ [SourceValues '':system:error?'' [Num 1, Str ''error'']])"
  by (simp add: error_def stuck_env_def)

text \<open>
  Whatever the polling loop returns, it was not started on the stuck instrument with a
  pending code 1: each round ends in the recursive call, the timeout branch only logs.
\<close>

lemma check_errors_loop_stuck:
  assumes "check_errors_loop E code message tr = Some y"
  shows "\<not> (E = stuck_env \<and> code = Num 1)"
proof (rule check_errors_loop.raw_induct
    [where P = "\<lambda>E code message tr y. \<not> (E = stuck_env \<and> code = Num 1)", OF _ assms],
    goal_cases)
  case (1 loop E code message tr y)
  show ?case
  proof
    assume a: "E = stuck_env \<and> code = Num 1"
    from 1(2) a obtain m' tr' where "loop stuck_env (Num 1) m' tr' = Some y"
      by (simp add: error_stuck Let_def)
    from 1(1) [OF this] show False by simp
  qed
qed

text \<open>One round of the loop on the stuck instrument: the timeout warning is logged and the loop goes on.\<close>

lemma check_errors_loop_round:
  "check_errors_loop stuck_env (Num 1) m tr =
     check_errors_loop stuck_env (Num 1) ''error''
       (tr @ [Clock (11 * of_nat (length tr)),
              Log Info ''Keithley 2400 reported error: %d, %s'' [Num 1, Str m],
              SourceValues '':system:error?'' [Num 1, Str ''error''],
              Clock (11 * of_nat (length tr) + 33),
              Log Warning ''Timed out for Keithley 2400 error retrieval.'' []])"
proof -
  have c: "clock stuck_env h = 11 * of_nat (length h)" for h
    by (simp add: stuck_env_def)
  show ?thesis
    by (subst check_errors_loop.simps) (simp add: error_stuck c Let_def algebra_simps)
qed

text \<open>
  C5. The claim is that \<open>check_errors()\<close> terminates for every sequence of replies,
  leaving the loop once 10 seconds have elapsed. Against an instrument that reports
  code 1 at every error query, \<open>check_errors()\<close> never returns, from any trace and
  although more than 10 seconds pass in every round: the timeout branch logs a warning
  and the loop goes on.
\<close>

theorem check_errors_never_returns:
  "check_errors stuck_env tr = None
   \<and> check_errors_loop stuck_env (Num 1) m tr =
       check_errors_loop stuck_env (Num 1) ''error''
         (tr @ [Clock (11 * of_nat (length tr)),
                Log Info ''Keithley 2400 reported error: %d, %s'' [Num 1, Str m],
                SourceValues '':system:error?'' [Num 1, Str ''error''],
                Clock (11 * of_nat (length tr) + 33),
                Log Warning ''Timed out for Keithley 2400 error retrieval.'' []])"
proof -
  have "check_errors stuck_env tr = None"
  proof (cases "check_errors stuck_env tr")
    case None
    then show ?thesis .
  next
    case (Some y)
    then have "check_errors_loop stuck_env (Num 1) ''error''
        (tr @ [SourceValues '':system:error?'' [Num 1, Str ''error'']]) = Some y"
      by (simp add: check_errors_def error_stuck)
    then show ?thesis using check_errors_loop_stuck by blast
  qed
  then show ?thesis using check_errors_loop_round [of m tr] by simp
qed

section \<open>The sweep\<close>

lemma last_commanded_after_set:
  "last_commanded (set_current c tr @ [Sleep d, MeterWrite x]) = Some c"
  by (simp add: last_commanded_def set_current_def source_writes_append commanded_append)

lemma sweep_step:
  assumes d: "0 \<le> delay self"
    and nostop: "\<forall>h. \<not> should_stop E h"
    and echo: "\<forall>h. last_commanded h = Some c \<longrightarrow> parse_reading (query_reply E h) = Inr (Fin c)"
  shows "\<exists>tr'. sweep E self steps ((i, c) # rest) tr = sweep E self steps rest tr'
      \<and> results_of tr' = results_of tr @ [(c, Fin c, np_truediv (Fin c) c)]
      \<and> progress_of tr' = progress_of tr @ [100 * of_nat i / of_nat steps]
      \<and> commanded (source_writes tr') = commanded (source_writes tr) @ [c]"
proof -
  let ?tr1 = "tr @ [Log Debug ''Measuring current: %g mA'' [Num c]]"
  let ?tr3 = "set_current c ?tr1 @ [Sleep (delay self * (1 / 1000))]"
  let ?tr4 = "?tr3 @ [MeterWrite (Raw ''INITIATE:CONT OFF''),
       MeterQuery ''READ?'' (query_reply E (?tr3 @ [MeterWrite (Raw ''INITIATE:CONT OFF'')]))]"
  let ?tr5 = "?tr4 @ [Emit_results c (Fin c) (np_truediv (Fin c) c),
                      Emit_progress (100 * of_nat i / of_nat steps)]"
  have s: "sleep (delay self * (1 / 1000)) (set_current c ?tr1) = (Inr (), ?tr3)"
    using d by (simp add: sleep_def)
  have "last_commanded (?tr3 @ [MeterWrite (Raw ''INITIATE:CONT OFF'')]) = Some c"
    using last_commanded_after_set [of c ?tr1] by simp
  then have p: "parse_reading (query_reply E (?tr3 @ [MeterWrite (Raw ''INITIATE:CONT OFF'')]))
                  = Inr (Fin c)"
    using echo by blast
  have m: "measure_voltage E 1 ?tr3 = (Inr (Fin c), ?tr4)"
    unfolding measure_voltage_once Let_def p by simp
  have e: "sweep E self steps ((i, c) # rest) tr = sweep E self steps rest ?tr5"
    unfolding sweep.simps Let_def s using m nostop by (simp del: np_truediv.simps)
  have r: "results_of ?tr5 = results_of tr @ [(c, Fin c, np_truediv (Fin c) c)]"
    by (simp add: results_of_append set_current_def del: np_truediv.simps)
  have g: "progress_of ?tr5 = progress_of tr @ [100 * of_nat i / of_nat steps]"
    by (simp add: progress_of_append set_current_def)
  have w: "commanded (source_writes ?tr5) = commanded (source_writes tr) @ [c]"
    by (simp add: source_writes_append commanded_append set_current_def)
  show ?thesis using e r g w by blast
qed

lemma sweep_runs:
  assumes d: "0 \<le> delay self"
    and nostop: "\<forall>h. \<not> should_stop E h"
    and echo: "\<forall>h c. c \<in> snd ` set ps \<longrightarrow> last_commanded h = Some c
                 \<longrightarrow> parse_reading (query_reply E h) = Inr (Fin c)"
  shows "\<exists>tr'. sweep E self steps ps tr = (Inr (), tr')
      \<and> results_of tr' = results_of tr @ map (\<lambda>(i, c). (c, Fin c, np_truediv (Fin c) c)) ps
      \<and> progress_of tr' = progress_of tr @ map (\<lambda>(i, c). 100 * of_nat i / of_nat steps) ps
      \<and> commanded (source_writes tr') = commanded (source_writes tr) @ map snd ps"
  using echo
proof (induction ps arbitrary: tr)
  case Nil
  then show ?case by simp
next
  case (Cons p ps)
  obtain i c where p: "p = (i, c)" by (cases p)
  have "\<forall>h. last_commanded h = Some c \<longrightarrow> parse_reading (query_reply E h) = Inr (Fin c)"
    using Cons.prems p by simp
  from sweep_step [OF d nostop this, of steps i ps tr] obtain tr1 where
    t1: "sweep E self steps ((i, c) # ps) tr = sweep E self steps ps tr1"
      "results_of tr1 = results_of tr @ [(c, Fin c, np_truediv (Fin c) c)]"
      "progress_of tr1 = progress_of tr @ [100 * of_nat i / of_nat steps]"
      "commanded (source_writes tr1) = commanded (source_writes tr) @ [c]"
    by blast
  have "\<forall>h c. c \<in> snd ` set ps \<longrightarrow> last_commanded h = Some c
                 \<longrightarrow> parse_reading (query_reply E h) = Inr (Fin c)"
    using Cons.prems by simp
  from Cons.IH [OF this, of tr1] obtain tr' where
    t2: "sweep E self steps ps tr1 = (Inr (), tr')"
      "results_of tr' = results_of tr1 @ map (\<lambda>(i, c). (c, Fin c, np_truediv (Fin c) c)) ps"
      "progress_of tr' = progress_of tr1 @ map (\<lambda>(i, c). 100 * of_nat i / of_nat steps) ps"
      "commanded (source_writes tr') = commanded (source_writes tr1) @ map snd ps"
    by blast
  show ?case
    using t1 t2 p by (simp del: sweep.simps np_truediv.simps)
qed

lemma map_zip_snd: "length xs = length ys \<Longrightarrow> map (\<lambda>(i, c). f c) (zip xs ys) = map f ys"
  by (induction xs ys rule: list_induct2) simp_all

lemma map_zip_fst: "length xs = length ys \<Longrightarrow> map (\<lambda>(i, c). g i) (zip xs ys) = map g xs"
  by (induction xs ys rule: list_induct2) simp_all

lemma snd_set_zip: "snd ` set (zip xs ys) \<subseteq> set ys"
  by (auto dest: set_zip_rightD)

lemma last_progress:
  assumes "0 < n"
  shows "last (ps @ map (\<lambda>i. 100 * of_nat i / (of_nat n :: rat)) [0 ..< n])
           = 100 * (of_nat n - 1) / of_nat n"
proof -
  obtain k where k: "n = Suc k" using assms by (cases n) auto
  show ?thesis unfolding k by (simp add: algebra_simps)
qed

text \<open>
  When the two bare names are bound, the sweep visits every point of the waveform
  built from them: one result record and one progress value per point.
\<close>

lemma execute_sweeps:
  assumes gr: "lookup_name globals ''current_range'' = Inr (PyFloat r)"
    and gs: "lookup_name globals ''current_step'' = Inr (PyFloat s)"
    and s: "0 < s" and sr: "s * (1 / 1000) \<le> r"
    and d: "0 \<le> delay self"
    and nostop: "\<forall>h. \<not> should_stop E h"
    and echo: "\<forall>h c w. CurrentValues r (s * (1 / 1000)) = Inr w \<longrightarrow> c \<in> set w
                 \<longrightarrow> last_commanded h = Some (c * (1 / 1000000))
                 \<longrightarrow> parse_reading (query_reply E h) = Inr (Fin (c * (1 / 1000000)))"
  shows "\<exists>w tr'. CurrentValues r (s * (1 / 1000)) = Inr w
      \<and> execute globals E self tr = (Inr (), tr')
      \<and> results_of tr' = results_of tr @
            map (\<lambda>c. (c * (1 / 1000000), Fin (c * (1 / 1000000)),
                       np_truediv (Fin (c * (1 / 1000000))) (c * (1 / 1000000)))) w
      \<and> progress_of tr' = progress_of tr @
            map (\<lambda>i. 100 * of_nat i / of_nat (length w)) [0 ..< length w]
      \<and> int (length w) = 2 * \<lceil>r / (s * (1 / 1000))\<rceil> + \<lceil>2 * r / (s * (1 / 1000))\<rceil> + 1
      \<and> last (progress_of tr') = 100 * (of_nat (length w) - 1) / of_nat (length w)
      \<and> last (progress_of tr') < 100"
proof -
  have s': "0 < s * (1 / 1000)" using s by simp
  from CurrentValues_shape [OF s' sr] obtain w where
    w: "CurrentValues r (s * (1 / 1000)) = Inr w"
      "int (length w) = 2 * \<lceil>r / (s * (1 / 1000))\<rceil> + \<lceil>2 * r / (s * (1 / 1000))\<rceil> + 1"
      and h0: "hd w = 0" 
    by blast
  let ?cs = "map (\<lambda>c. c * (1 / 1000000)) w"
  let ?n = "length w"
  let ?ps = "zip [0 ..< ?n] ?cs"
  let ?tr0 = "tr @ [Log Info ''Starting to sweep through current'' []]"
  have ex: "execute globals E self tr = sweep E self ?n ?ps ?tr0"
    using w(1) by (simp add: execute_def gr gs Let_def)
  have "\<forall>h c. c \<in> snd ` set ?ps \<longrightarrow> last_commanded h = Some c
          \<longrightarrow> parse_reading (query_reply E h) = Inr (Fin c)"
  proof (intro allI impI)
    fix h c
    assume "c \<in> snd ` set ?ps" and l: "last_commanded h = Some c"
    then have "c \<in> set ?cs" using snd_set_zip by fast
    then obtain c0 where "c0 \<in> set w" "c = c0 * (1 / 1000000)" by auto
    then show "parse_reading (query_reply E h) = Inr (Fin c)"
      using echo w(1) l by blast
  qed
  from sweep_runs [OF d nostop this, of ?n ?tr0] obtain tr' where
    t: "sweep E self ?n ?ps ?tr0 = (Inr (), tr')"
      "results_of tr' = results_of ?tr0 @ map (\<lambda>(i, c). (c, Fin c, np_truediv (Fin c) c)) ?ps"
      "progress_of tr' = progress_of ?tr0 @ map (\<lambda>(i, c). 100 * of_nat i / of_nat ?n) ?ps"
    by blast
  have len: "length [0 ..< ?n] = length ?cs" by simp
  have r1: "results_of tr' = results_of tr @
            map (\<lambda>c. (c * (1 / 1000000), Fin (c * (1 / 1000000)),
                       np_truediv (Fin (c * (1 / 1000000))) (c * (1 / 1000000)))) w"
    unfolding t(2) map_zip_snd [OF len]
    by (simp add: results_of_append comp_def del: np_truediv.simps)
  have p1: "progress_of tr' = progress_of tr @
            map (\<lambda>i. 100 * of_nat i / of_nat ?n) [0 ..< ?n]"
    unfolding t(3) map_zip_fst [OF len]
    by (simp add: progress_of_append)
  have "0 < r / (s * (1 / 1000))" using s' sr by simp
  then have c1: "0 < \<lceil>r / (s * (1 / 1000))\<rceil>" by (simp only: zero_less_ceiling)
  have "0 < 2 * r / (s * (1 / 1000))" using s' sr by simp
  then have c2: "0 < \<lceil>2 * r / (s * (1 / 1000))\<rceil>" by (simp only: zero_less_ceiling)
  have npos: "0 < ?n" using w(2) c1 c2 by linarith
  have l1: "last (progress_of tr') = 100 * (of_nat ?n - 1) / of_nat ?n"
    unfolding p1 using npos by (rule last_progress)
  have l2: "last (progress_of tr') < 100"
    unfolding l1 using npos by (simp add: divide_less_eq)
  show ?thesis using w ex t(1) r1 p1 l1 l2 by auto
qed

end
